theory Spec2Isabelle
  imports Complex_Main
begin

section \<open>Conventions\<close>

text \<open>
  The storefront backend is JavaScript over a document database. In this development
  \<^item> a JavaScript number that carries money or a rating average is a \<^typ>\<open>rat\<close>
    (the arithmetic of IEEE doubles is idealised to exact arithmetic), a count or a
    quantity is an \<^typ>\<open>int\<close>, a date is an \<^typ>\<open>int\<close> (milliseconds);
  \<^item> a field that may be absent is an \<^typ>\<open>'a option\<close>, and the source's truthiness
    tests (\<^verbatim>\<open>x && ...\<close>, \<^verbatim>\<open>x || 0\<close>) are written out: \<open>None\<close>, \<open>0\<close> and the
    empty string are falsy;
  \<^item> a collection of documents is a map from identifiers to records or a list of
    records; every handler takes the database and returns an \<open>error + result\<close>,
    \<open>Inl\<close> being the early \<^verbatim>\<open>return res.status(4xx)\<close> of the source. In each handler
    modelled here every such return comes before the first write, so after \<open>Inl\<close> the
    database is as it was;
  \<^item> calls to the payment gateway are recorded in a log carried by the database; the
    external services (shipping, payment gateway, e-mail) are taken to answer, and what
    they answer is a parameter.
\<close>

datatype error =
    ValidationError            \<comment> \<open>400, missing or malformed input\<close>
  | NotFound                   \<comment> \<open>404\<close>
  | PermissionDenied           \<comment> \<open>403\<close>
  | InsufficientStock          \<comment> \<open>400, "Insufficient stock for ..."\<close>
  | InvalidTransition          \<comment> \<open>400, "Cannot transition from ... to ..."\<close>
  | CouponUsageLimitExceeded   \<comment> \<open>400, "Coupon usage limit exceeded"\<close>
  | UserUsageLimitExceeded     \<comment> \<open>400, "You have exceeded the usage limit for this coupon"\<close>
  | MinimumPurchaseRequired    \<comment> \<open>400, "Minimum purchase of ... required for this coupon"\<close>
  | CannotCancel               \<comment> \<open>400, "Order cannot be cancelled at this stage"\<close>

section \<open>Products and inventory\<close>

text \<open>
  The product document as the first class of \<^verbatim>\<open>order.controller.js\<close> reads it:
  \<^verbatim>\<open>price.base\<close>, \<^verbatim>\<open>price.sale\<close>, \<^verbatim>\<open>tax.rate\<close>, \<^verbatim>\<open>inventory\<close> and, for each variant, its
  SKU, its own \<^verbatim>\<open>inventory\<close> and its price adjustment.
\<close>

record Inventory =
  quantity :: int
  reserved :: int
  sold :: int
  allowBackorders :: bool

record Variant =
  sku :: string
  v_inventory :: Inventory
  priceAdjustment :: "rat option"

record Sale =
  sale_type :: string
  sale_amount :: rat
  sale_startDate :: int
  sale_endDate :: "int option"

record Product =
  price_base :: rat
  price_sale :: "Sale option"
  tax_rate :: "rat option"
  inventory :: Inventory
  variants :: "Variant list"

datatype inventory_action = Reserve | Sell | Release

text \<open>
  Modelled from the spec: the model method \<^verbatim>\<open>Product.updateInventory(quantity, variantSku,
  action)\<close> is called by the controllers but its body is not among the sources. The
  spec (Inventory Reservation) gives the three actions on an inventory record: reserve
  increments \<open>reserved\<close>; sell decrements both \<open>quantity\<close> and \<open>reserved\<close> and increments
  \<open>sold\<close>; release decrements \<open>reserved\<close> without touching \<open>quantity\<close>. The stock check
  that the spec attaches to reserve is made by the caller, \<open>createOrder\<close>, below.
\<close>

definition adjustInventory :: "int \<Rightarrow> inventory_action \<Rightarrow> Inventory \<Rightarrow> Inventory" where
  "adjustInventory q action iv =
     (case action of
        Reserve \<Rightarrow> iv\<lparr>reserved := reserved iv + q\<rparr>
      | Sell \<Rightarrow> iv\<lparr>quantity := quantity iv - q, reserved := reserved iv - q,
                   sold := sold iv + q\<rparr>
      | Release \<Rightarrow> iv\<lparr>reserved := reserved iv - q\<rparr>)"

text \<open>
  Modelled from the spec: with a variant SKU the action is applied to that variant's
  own inventory sub-record, the first variant with that SKU, as \<^verbatim>\<open>variants.find\<close>
  would give it; the other variants are left as they are.
\<close>

fun adjustVariant :: "int \<Rightarrow> string \<Rightarrow> inventory_action \<Rightarrow> Variant list \<Rightarrow> Variant list" where
  "adjustVariant q s action [] = []"
| "adjustVariant q s action (v # vs) =
     (if sku v = s then v\<lparr>v_inventory := adjustInventory q action (v_inventory v)\<rparr> # vs
      else v # adjustVariant q s action vs)"

text \<open>A string that is absent or empty is falsy: a falsy variant SKU selects the base record.\<close>

fun truthy_str :: "string option \<Rightarrow> string option" where
  "truthy_str None = None"
| "truthy_str (Some s) = (if s = [] then None else Some s)"

text \<open>
  Modelled from the spec: \<^verbatim>\<open>updateInventory\<close> itself, which acts on the variant when a
  variant SKU is given and on the base record otherwise.
\<close>

definition updateInventory :: "int \<Rightarrow> string option \<Rightarrow> inventory_action \<Rightarrow> Product \<Rightarrow> Product" where
  "updateInventory q vsku action p =
     (case truthy_str vsku of
        Some s \<Rightarrow> p\<lparr>variants := adjustVariant q s action (variants p)\<rparr>
      | None \<Rightarrow> p\<lparr>inventory := adjustInventory q action (inventory p)\<rparr>)"

text \<open>\<^verbatim>\<open>product.variants.find(v => v.sku === variantSku)\<close>\<close>

definition findVariant :: "string \<Rightarrow> Variant list \<Rightarrow> Variant option" where
  "findVariant s vs = List.find (\<lambda>v. sku v = s) vs"

section \<open>Orders and coupons as \<open>OrderController\<close> (first class) uses them\<close>

text \<open>
  Line numbers in this section refer to \<^verbatim>\<open>backend/src/controllers/order.controller.js\<close>,
  whose first controller class ends at line 1213.
\<close>

record OrderItem =
  product :: nat
  variantSku :: "string option"
  item_quantity :: int
  price :: rat
  originalPrice :: rat
  item_discount_amount :: rat
  item_tax_rate :: rat
  item_tax_amount :: rat
  item_total :: rat

record Amount =
  subtotal :: rat
  shipping :: rat
  tax :: rat
  discount :: rat
  total_amount :: rat

record DiscountEntry =
  d_code :: string
  d_amount :: rat
  d_appliedTo :: string

record Order =
  user :: nat
  items :: "OrderItem list"
  status :: string
  shipping_cost :: rat
  shipping_originalCost :: rat
  shipping_discount :: rat
  payment_method :: string
  payment_status :: string
  payment_amount :: Amount
  discounts :: "DiscountEntry list"

record UsageEntry =
  u_user :: nat
  u_order :: nat
  u_discountAmount :: rat

record Coupon =
  code :: string
  isActive :: bool
  startDate :: int
  endDate :: "int option"
  usageLimit :: "int option"
  usedCount :: int
  userUsageLimit :: "int option"
  minimumPurchase :: "rat option"
  discountType :: string
  discountValue :: rat
  maxDiscountAmount :: "rat option"
  appliesTo :: string
  usageHistory :: "UsageEntry list"

text \<open>A call of \<^verbatim>\<open>paymentService.refundPayment\<close>, as the gateway receives it.\<close>

record RefundCall =
  rf_order :: nat
  rf_amount :: rat
  rf_reason :: string

text \<open>
  The database: users by identifier, products by identifier, the coupon collection, the
  order collection (an order's identifier is its position; orders are never deleted),
  and the log of refund calls made to the payment gateway.
\<close>

record DB =
  users :: "nat list"
  products :: "nat \<rightharpoonup> Product"
  coupons :: "Coupon list"
  orders :: "Order list"
  refunds :: "RefundCall list"

record ReqItem =
  productId :: nat
  req_variantSku :: "string option"
  req_quantity :: int

record OrderRequest =
  req_items :: "ReqItem list"
  shippingAddress :: "string option"
  shippingMethod :: "string option"
  paymentMethod :: "string option"
  couponCode :: "string option"

record ProductUpdate =
  upd_productId :: nat
  upd_variantSku :: "string option"
  upd_quantity :: int

subsection \<open>\<open>createOrder\<close>: the item loop\<close>

text \<open>Lines 84-108: the variant lookup and the availability check of one line item.\<close>

definition lookupVariant :: "Product \<Rightarrow> string option \<Rightarrow> error + Variant option" where
  "lookupVariant p vsku =
     (case truthy_str vsku of
        None \<Rightarrow> Inr None
      | Some s \<Rightarrow> (case findVariant s (variants p) of
                    None \<Rightarrow> Inl ValidationError
                  | Some v \<Rightarrow> Inr (Some v)))"

definition availableStock :: "Product \<Rightarrow> Variant option \<Rightarrow> int" where
  "availableStock p variant =
     (case variant of
        Some v \<Rightarrow> quantity (v_inventory v) - reserved (v_inventory v)
      | None \<Rightarrow> quantity (inventory p) - reserved (inventory p))"

definition checkAvailability :: "Product \<Rightarrow> Variant option \<Rightarrow> int \<Rightarrow> error + unit" where
  "checkAvailability p variant q =
     (if availableStock p variant < q
      then (if \<not> allowBackorders (inventory p) then Inl InsufficientStock else Inr ())
      else Inr ())"

text \<open>Lines 110-126: the base price and the price after an active sale.\<close>

definition saleActive :: "int \<Rightarrow> Sale \<Rightarrow> bool" where
  "saleActive now s =
     (sale_startDate s \<le> now \<and> (case sale_endDate s of None \<Rightarrow> True | Some e \<Rightarrow> now \<le> e))"

definition basePriceOf :: "Product \<Rightarrow> Variant option \<Rightarrow> rat" where
  "basePriceOf p variant =
     (case variant of
        Some v \<Rightarrow> price_base p + (case priceAdjustment v of None \<Rightarrow> 0 | Some a \<Rightarrow> a)
      | None \<Rightarrow> price_base p)"

definition finalPriceOf :: "int \<Rightarrow> Product \<Rightarrow> rat \<Rightarrow> rat" where
  "finalPriceOf now p basePrice =
     (case price_sale p of
        None \<Rightarrow> basePrice
      | Some s \<Rightarrow>
          if saleActive now s
          then (if sale_type s = ''percentage'' then basePrice * (1 - sale_amount s / 100)
                else if sale_type s = ''fixed'' then max 0 (basePrice - sale_amount s)
                else basePrice)
          else basePrice)"

text \<open>Lines 75-169: one iteration of the loop over the requested items.\<close>

definition processItem :: "int \<Rightarrow> (nat \<rightharpoonup> Product) \<Rightarrow> ReqItem \<Rightarrow> error + OrderItem" where
  "processItem now ps item =
     (case ps (productId item) of
        None \<Rightarrow> Inl NotFound
      | Some p \<Rightarrow>
          (case lookupVariant p (req_variantSku item) of
             Inl e \<Rightarrow> Inl e
           | Inr variant \<Rightarrow>
               (case checkAvailability p variant (req_quantity item) of
                  Inl e \<Rightarrow> Inl e
                | Inr _ \<Rightarrow>
                    let basePrice = basePriceOf p variant;
                        finalPrice = finalPriceOf now p basePrice;
                        taxRate = (case tax_rate p of None \<Rightarrow> 0 | Some r \<Rightarrow> r);
                        taxAmount = finalPrice * (taxRate / 100) * of_int (req_quantity item);
                        itemTotal = finalPrice * of_int (req_quantity item)
                    in Inr \<lparr>product = productId item,
                            variantSku = req_variantSku item,
                            item_quantity = req_quantity item,
                            price = finalPrice,
                            originalPrice = basePrice,
                            item_discount_amount =
                              (basePrice - finalPrice) * of_int (req_quantity item),
                            item_tax_rate = taxRate,
                            item_tax_amount = taxAmount,
                            item_total = itemTotal + taxAmount\<rparr>)))"

text \<open>
  The loop: the accumulators are the order items, the running subtotal and the list of
  inventory updates to make once the order is saved. The first failing item ends the
  request.
\<close>

fun processItems ::
  "int \<Rightarrow> (nat \<rightharpoonup> Product) \<Rightarrow> ReqItem list \<Rightarrow> OrderItem list \<times> rat \<times> ProductUpdate list
     \<Rightarrow> error + OrderItem list \<times> rat \<times> ProductUpdate list" where
  "processItems now ps [] acc = Inr acc"
| "processItems now ps (item # rest) (orderItems, sub, productUpdates) =
     (case processItem now ps item of
        Inl e \<Rightarrow> Inl e
      | Inr oi \<Rightarrow>
          processItems now ps rest
            (orderItems @ [oi],
             sub + price oi * of_int (req_quantity item),
             productUpdates @ [\<lparr>upd_productId = productId item,
                                 upd_variantSku = req_variantSku item,
                                 upd_quantity = req_quantity item\<rparr>]))"

subsection \<open>\<open>createOrder\<close>: the coupon\<close>

definition toUpperChar :: "char \<Rightarrow> char" where
  "toUpperChar c =
     (let n = (of_char c :: nat) in if 97 \<le> n \<and> n \<le> 122 then char_of (n - 32) else c)"

definition toUpperCase :: "string \<Rightarrow> string" where
  "toUpperCase s = map toUpperChar s"

text \<open>
  Lines 175-184: \<^verbatim>\<open>Coupon.findOne\<close> with the code in upper case, \<^verbatim>\<open>isActive: true\<close>,
  \<^verbatim>\<open>startDate <= now\<close> and an end date that is missing, null or not before now.
\<close>

definition couponMatches :: "int \<Rightarrow> string \<Rightarrow> Coupon \<Rightarrow> bool" where
  "couponMatches now cc c =
     (code c = toUpperCase cc \<and> isActive c \<and> startDate c \<le> now \<and>
      (case endDate c of None \<Rightarrow> True | Some e \<Rightarrow> now \<le> e))"

definition findCoupon :: "int \<Rightarrow> string \<Rightarrow> Coupon list \<Rightarrow> Coupon option" where
  "findCoupon now cc cs = List.find (couponMatches now cc) cs"

text \<open>Lines 196-199: the number of the caller's orders that carry the coupon code.\<close>

definition userUsageCount :: "nat \<Rightarrow> string \<Rightarrow> Order list \<Rightarrow> int" where
  "userUsageCount uid cc os =
     int (length (filter (\<lambda>ord. user ord = uid \<and>
                                 list_ex (\<lambda>d. d_code d = toUpperCase cc) (discounts ord)) os))"

text \<open>Lines 187-215: the three checks, each a 400 response.\<close>

definition checkCoupon :: "nat \<Rightarrow> string \<Rightarrow> Order list \<Rightarrow> rat \<Rightarrow> Coupon \<Rightarrow> error + unit" where
  "checkCoupon uid cc os sub c =
     (if (case usageLimit c of None \<Rightarrow> False | Some l \<Rightarrow> l \<noteq> 0 \<and> l \<le> usedCount c)
      then Inl CouponUsageLimitExceeded
      else if (case userUsageLimit c of None \<Rightarrow> False
               | Some l \<Rightarrow> l \<noteq> 0 \<and> l \<le> userUsageCount uid cc os)
      then Inl UserUsageLimitExceeded
      else if (case minimumPurchase c of None \<Rightarrow> False | Some m \<Rightarrow> m \<noteq> 0 \<and> sub < m)
      then Inl MinimumPurchaseRequired
      else Inr ())"

text \<open>Lines 217-225: the coupon discount.\<close>

definition couponDiscountOf :: "rat \<Rightarrow> Coupon \<Rightarrow> rat" where
  "couponDiscountOf sub c =
     (if discountType c = ''percentage''
      then (let d = sub * (discountValue c / 100)
            in case maxDiscountAmount c of
                 None \<Rightarrow> d
               | Some m \<Rightarrow> if m \<noteq> 0 then min d m else d)
      else if discountType c = ''fixed'' then discountValue c
      else 0)"

text \<open>Lines 227-232: the subtotal after the coupon.\<close>

definition subtotalAfterCoupon :: "rat \<Rightarrow> Coupon \<Rightarrow> rat" where
  "subtotalAfterCoupon sub c =
     (if appliesTo c = ''shipping'' then sub else max 0 (sub - couponDiscountOf sub c))"

text \<open>
  Lines 171-234. The result is the coupon found (if any), \<open>couponDiscount\<close> and the
  subtotal to go on with. A code that matches no coupon in the query leaves
  \<open>coupon = null\<close>, \<open>couponDiscount = 0\<close> and the subtotal as it was.
\<close>

definition applyCouponStep ::
  "int \<Rightarrow> nat \<Rightarrow> string option \<Rightarrow> DB \<Rightarrow> rat \<Rightarrow> error + Coupon option \<times> rat \<times> rat" where
  "applyCouponStep now uid ccode db sub =
     (case truthy_str ccode of
        None \<Rightarrow> Inr (None, 0, sub)
      | Some cc \<Rightarrow>
          (case findCoupon now cc (coupons db) of
             None \<Rightarrow> Inr (None, 0, sub)
           | Some c \<Rightarrow>
               (case checkCoupon uid cc (orders db) sub c of
                  Inl e \<Rightarrow> Inl e
                | Inr _ \<Rightarrow> Inr (Some c, couponDiscountOf sub c, subtotalAfterCoupon sub c))))"

text \<open>Lines 250-258: the discount on the shipping cost.\<close>

definition shippingDiscountOf :: "rat \<Rightarrow> Coupon option \<Rightarrow> rat" where
  "shippingDiscountOf shippingCost cpn =
     (case cpn of
        None \<Rightarrow> 0
      | Some c \<Rightarrow>
          if appliesTo c = ''shipping''
          then (if discountType c = ''percentage'' then shippingCost * (discountValue c / 100)
                else if discountType c = ''fixed'' then min (discountValue c) shippingCost
                else 0)
          else 0)"

subsection \<open>\<open>createOrder\<close>: the inventory loops and the coupon usage\<close>

text \<open>
  Lines 334-340, 629-635, 665-671 and 761-767 are the same loop: for each entry find the
  product and, if it exists, call \<open>updateInventory\<close> and save it.
\<close>

definition inventoryStep ::
  "inventory_action \<Rightarrow> nat \<times> string option \<times> int \<Rightarrow> (nat \<rightharpoonup> Product) \<Rightarrow> (nat \<rightharpoonup> Product)" where
  "inventoryStep action t ps =
     (case t of (pid, vsku, q) \<Rightarrow>
        (case ps pid of
           None \<Rightarrow> ps
         | Some p \<Rightarrow> ps(pid \<mapsto> updateInventory q vsku action p)))"

fun inventoryLoop ::
  "inventory_action \<Rightarrow> (nat \<times> string option \<times> int) list \<Rightarrow> (nat \<rightharpoonup> Product) \<Rightarrow> (nat \<rightharpoonup> Product)" where
  "inventoryLoop action [] ps = ps"
| "inventoryLoop action (t # rest) ps = inventoryLoop action rest (inventoryStep action t ps)"

definition updateTargets :: "ProductUpdate list \<Rightarrow> (nat \<times> string option \<times> int) list" where
  "updateTargets us = map (\<lambda>u. (upd_productId u, upd_variantSku u, upd_quantity u)) us"

definition itemTargets :: "OrderItem list \<Rightarrow> (nat \<times> string option \<times> int) list" where
  "itemTargets its = map (\<lambda>it. (product it, variantSku it, item_quantity it)) its"

fun updateFirst :: "('a \<Rightarrow> bool) \<Rightarrow> ('a \<Rightarrow> 'a) \<Rightarrow> 'a list \<Rightarrow> 'a list" where
  "updateFirst P f [] = []"
| "updateFirst P f (x # xs) = (if P x then f x # xs else x # updateFirst P f xs)"

text \<open>Lines 343-352: the usage of the coupon found is counted and recorded.\<close>

definition recordCouponUsage :: "int \<Rightarrow> string option \<Rightarrow> nat \<Rightarrow> nat \<Rightarrow> rat \<Rightarrow> Coupon list \<Rightarrow> Coupon list" where
  "recordCouponUsage now ccode uid oid amt cs =
     (case truthy_str ccode of
        None \<Rightarrow> cs
      | Some cc \<Rightarrow>
          updateFirst (couponMatches now cc)
            (\<lambda>c. c\<lparr>usedCount := usedCount c + 1,
                   usageHistory := usageHistory c @
                     [\<lparr>u_user = uid, u_order = oid, u_discountAmount = amt\<rparr>]\<rparr>) cs)"

subsection \<open>\<open>createOrder\<close>\<close>

text \<open>
  Modelled from the spec: the order schema that the first class saves to is not among
  the sources, and \<open>createOrder\<close> does not set the status. By the spec (Order Lifecycle
  Manager) a new order starts in \<open>pending\<close>, the first state of the state machine; it is
  also the default in the order schema of the second class.
\<close>

definition defaultStatus :: string where
  "defaultStatus = ''pending''"

text \<open>
  Lines 236-328: shipping discount, tax, total and the order document. The shipping
  cost comes from the shipping service, which is not part of the sources: it is a
  parameter (the weight and the number of items that the loop adds up go only to that
  service).
\<close>

definition buildOrder ::
  "nat \<Rightarrow> string \<Rightarrow> OrderItem list \<Rightarrow> Coupon option \<Rightarrow> rat \<Rightarrow> rat \<Rightarrow> rat \<Rightarrow> Order" where
  "buildOrder uid pm orderItems cpn couponDiscount sub shippingCost =
     (let shippingDiscount = shippingDiscountOf shippingCost cpn;
          finalShippingCost = max 0 (shippingCost - shippingDiscount);
          taxRate = 8 / 100;
          taxAmount = sub * taxRate;
          total = sub + finalShippingCost + taxAmount
      in \<lparr>user = uid,
          items = orderItems,
          status = defaultStatus,
          shipping_cost = finalShippingCost,
          shipping_originalCost = shippingCost,
          shipping_discount = shippingDiscount,
          payment_method = pm,
          payment_status = (if pm = ''cod'' then ''pending'' else ''processing''),
          payment_amount = \<lparr>subtotal = sub, shipping = finalShippingCost, tax = taxAmount,
                              discount = couponDiscount + shippingDiscount,
                              total_amount = total\<rparr>,
          discounts = (case cpn of
                         None \<Rightarrow> []
                       | Some c \<Rightarrow> [\<lparr>d_code = code c,
                                     d_amount = couponDiscount + shippingDiscount,
                                     d_appliedTo = appliesTo c\<rparr>])\<rparr>)"

text \<open>
  Lines 330-352: the order is saved, every line item is reserved and the usage of the
  coupon is recorded. The result is the new database and the order's identifier.
\<close>

definition placeOrder ::
  "int \<Rightarrow> nat \<Rightarrow> string option \<Rightarrow> Order \<Rightarrow> ProductUpdate list \<Rightarrow> DB \<Rightarrow> DB \<times> nat" where
  "placeOrder now uid ccode ord productUpdates db =
     (let oid = length (orders db)
      in (db\<lparr>orders := orders db @ [ord],
             products := inventoryLoop Reserve (updateTargets productUpdates) (products db),
             coupons := recordCouponUsage now ccode uid oid (discount (payment_amount ord))
                          (coupons db)\<rparr>,
          oid))"

text \<open>
  Lines 15-419. Clearing the cart, creating the payment intent and sending the
  confirmation e-mail touch nothing that is modelled here; the external services are
  taken to answer.
\<close>

definition createOrder :: "int \<Rightarrow> rat \<Rightarrow> nat \<Rightarrow> OrderRequest \<Rightarrow> DB \<Rightarrow> error + DB \<times> nat" where
  "createOrder now shippingCost uid req db =
     (if req_items req = [] then Inl ValidationError
      else if shippingAddress req = None then Inl ValidationError
      else if truthy_str (shippingMethod req) = None then Inl ValidationError
      else
        (case truthy_str (paymentMethod req) of
           None \<Rightarrow> Inl ValidationError
         | Some pm \<Rightarrow>
             if uid \<notin> set (users db) then Inl NotFound
             else
               (case processItems now (products db) (req_items req) ([], 0, []) of
                  Inl e \<Rightarrow> Inl e
                | Inr (orderItems, sub0, productUpdates) \<Rightarrow>
                    (case applyCouponStep now uid (couponCode req) db sub0 of
                       Inl e \<Rightarrow> Inl e
                     | Inr (cpn, couponDiscount, sub) \<Rightarrow>
                         Inr (placeOrder now uid (couponCode req)
                                (buildOrder uid pm orderItems cpn couponDiscount sub
                                   shippingCost)
                                productUpdates db)))))"

subsection \<open>\<open>updateOrderStatus\<close> and \<open>cancelOrder\<close>\<close>

text \<open>Lines 594-604: the table, a JavaScript object from status to allowed next statuses.\<close>

definition validTransitions :: "string \<Rightarrow> string list option" where
  "validTransitions =
     map_of
       [(''pending'', [''confirmed'', ''cancelled'']),
        (''confirmed'', [''processing'', ''cancelled'']),
        (''processing'', [''ready_for_shipment'', ''cancelled'']),
        (''ready_for_shipment'', [''shipped'']),
        (''shipped'', [''out_for_delivery'', ''delivered'']),
        (''out_for_delivery'', [''delivered'']),
        (''delivered'', [''refunded'']),
        (''cancelled'', []),
        (''refunded'', [])]"

text \<open>Line 606: \<^verbatim>\<open>validTransitions[order.status]?.includes(status)\<close>.\<close>

definition transitionAllowed :: "string \<Rightarrow> string \<Rightarrow> bool" where
  "transitionAllowed from to =
     (case validTransitions from of None \<Rightarrow> False | Some ts \<Rightarrow> to \<in> set ts)"

text \<open>Lines 637-647 and 769-779: refund a captured payment and mark it refunded.\<close>

definition refundIfCaptured :: "nat \<Rightarrow> string \<Rightarrow> Order \<Rightarrow> RefundCall list \<Rightarrow> Order \<times> RefundCall list" where
  "refundIfCaptured oid reason ord calls =
     (if payment_status ord = ''captured''
      then (ord\<lparr>payment_status := ''refunded''\<rparr>,
            calls @ [\<lparr>rf_order = oid, rf_amount = total_amount (payment_amount ord),
                       rf_reason = reason\<rparr>])
      else (ord, calls))"

text \<open>
  Lines 569-725. Tracking numbers, timestamps, notes, loyalty points and e-mails are not
  modelled.
\<close>

definition updateOrderStatus :: "string \<Rightarrow> nat \<Rightarrow> string \<Rightarrow> DB \<Rightarrow> error + DB" where
  "updateOrderStatus userRole oid newStatus db =
     (if userRole \<noteq> ''admin'' \<and> userRole \<noteq> ''superadmin'' then Inl PermissionDenied
      else if length (orders db) \<le> oid then Inl NotFound
      else
        (let ord = orders db ! oid in
         if \<not> transitionAllowed (status ord) newStatus then Inl InvalidTransition
         else
           (let ord1 = ord\<lparr>status := newStatus\<rparr> in
            if newStatus = ''cancelled''
            then (let ps = inventoryLoop Release (itemTargets (items ord1)) (products db);
                      (ord2, calls) = refundIfCaptured oid ''order_cancelled'' ord1 (refunds db)
                  in Inr (db\<lparr>products := ps, refunds := calls,
                             orders := (orders db)[oid := ord2]\<rparr>))
            else if newStatus = ''shipped''
            then Inr (db\<lparr>orders := (orders db)[oid := ord1]\<rparr>)
            else if newStatus = ''delivered''
            then (let ps = inventoryLoop Sell (itemTargets (items ord1)) (products db)
                  in Inr (db\<lparr>products := ps, orders := (orders db)[oid := ord1]\<rparr>))
            else Inr (db\<lparr>orders := (orders db)[oid := ord1]\<rparr>))))"

text \<open>
  Modelled from the spec: the order model's virtual \<^verbatim>\<open>canCancel\<close>, read by \<open>cancelOrder\<close>,
  is not among the sources. The spec (Order Lifecycle Manager, Cancel) permits
  cancellation only while the status is pending, confirmed or processing.
\<close>

definition canCancel :: "Order \<Rightarrow> bool" where
  "canCancel ord = (status ord \<in> {''pending'', ''confirmed'', ''processing''})"

text \<open>Lines 728-820: cancellation by the customer who owns the order.\<close>

definition cancelOrder :: "nat \<Rightarrow> nat \<Rightarrow> DB \<Rightarrow> error + DB" where
  "cancelOrder uid oid db =
     (if length (orders db) \<le> oid \<or> user (orders db ! oid) \<noteq> uid then Inl NotFound
      else
        (let ord = orders db ! oid in
         if \<not> canCancel ord then Inl CannotCancel
         else
           (let ord1 = ord\<lparr>status := ''cancelled''\<rparr>;
                ps = inventoryLoop Release (itemTargets (items ord1)) (products db);
                (ord2, calls) = refundIfCaptured oid ''customer_cancelled'' ord1 (refunds db)
            in Inr (db\<lparr>products := ps, refunds := calls,
                       orders := (orders db)[oid := ord2]\<rparr>))))"

subsection \<open>The inventory operations on one product\<close>

text \<open>
  The reserve of the specification for one line item, as \<open>createOrder\<close> performs it:
  the variant lookup and the availability check of the item loop (lines 84-108) and,
  once the order is saved, \<open>updateInventory\<close> with the action reserve (line 337). Sell
  (line 668) and release (lines 632 and 764) are \<open>updateInventory\<close> with no check.
\<close>

definition reserve :: "Product \<Rightarrow> string option \<Rightarrow> int \<Rightarrow> error + Product" where
  "reserve p vsku q =
     (case lookupVariant p vsku of
        Inl e \<Rightarrow> Inl e
      | Inr variant \<Rightarrow>
          (case checkAvailability p variant q of
             Inl e \<Rightarrow> Inl e
           | Inr _ \<Rightarrow> Inr (updateInventory q vsku Reserve p)))"

definition sell :: "Product \<Rightarrow> string option \<Rightarrow> int \<Rightarrow> error + Product" where
  "sell p vsku q = Inr (updateInventory q vsku Sell p)"

definition release :: "Product \<Rightarrow> string option \<Rightarrow> int \<Rightarrow> error + Product" where
  "release p vsku q = Inr (updateInventory q vsku Release p)"

datatype stock_call =
    ReserveCall "string option" int
  | SellCall "string option" int
  | ReleaseCall "string option" int

fun applyCall :: "Product \<Rightarrow> stock_call \<Rightarrow> error + Product" where
  "applyCall p (ReserveCall vsku q) = reserve p vsku q"
| "applyCall p (SellCall vsku q) = sell p vsku q"
| "applyCall p (ReleaseCall vsku q) = release p vsku q"

text \<open>A sequence of calls on one product; it ends at the first call that fails.\<close>

fun applyCalls :: "Product \<Rightarrow> stock_call list \<Rightarrow> error + Product" where
  "applyCalls p [] = Inr p"
| "applyCalls p (c # cs) =
     (case applyCall p c of Inl e \<Rightarrow> Inl e | Inr p' \<Rightarrow> applyCalls p' cs)"

section \<open>The order model and \<open>OrderController\<close> (second class)\<close>

text \<open>
  The order schema with the \<open>totals\<close> block and its pre-save hooks (the last document of
  \<^verbatim>\<open>unnamed/part_003\<close>), and the second controller class of \<^verbatim>\<open>order.controller.js\<close>
  (from line 1214), which works on that schema. Its products keep \<^verbatim>\<open>metadata.stock\<close> and
  \<^verbatim>\<open>metadata.reserved\<close> and a \<^verbatim>\<open>stock\<close> per variant.
\<close>

record LineItem =
  li_product :: nat
  li_variant_sku :: "string option"
  li_quantity :: int
  li_price :: rat
  li_subtotal :: rat
  li_tax :: "rat option"
  li_discount_amount :: "rat option"

record Totals =
  t_items :: rat
  t_shipping :: rat
  t_tax :: rat
  t_discount :: rat
  grandTotal :: rat

record OrderDoc =
  od_user :: nat
  od_items :: "LineItem list"
  od_shipping_cost :: rat
  od_status :: string
  od_payment_status :: string
  od_payment_amount :: Totals
  totals :: Totals

definition or0 :: "rat option \<Rightarrow> rat" where
  "or0 x = (case x of None \<Rightarrow> 0 | Some v \<Rightarrow> v)"

text \<open>
  The second pre-save hook of the order schema (\<^verbatim>\<open>// Update totals before save\<close>): the
  totals are rebuilt from the line items and the shipping cost, whatever was there.
\<close>

definition preSaveTotals :: "OrderDoc \<Rightarrow> OrderDoc" where
  "preSaveTotals ord =
     (let t0 = \<lparr>t_items = foldl (\<lambda>acc it. acc + li_subtotal it) 0 (od_items ord),
                 t_shipping = od_shipping_cost ord,
                 t_tax = foldl (\<lambda>acc it. acc + or0 (li_tax it)) 0 (od_items ord),
                 t_discount = foldl (\<lambda>acc it. acc + or0 (li_discount_amount it)) 0 (od_items ord),
                 grandTotal = 0\<rparr>;
          t = t0\<lparr>grandTotal := t_items t0 + t_shipping t0 + t_tax t0 - t_discount t0\<rparr>
      in ord\<lparr>totals := t, od_payment_amount := t\<rparr>)"

record Variant2 =
  v2_sku :: string
  v2_stock :: int

record Product2 =
  metadata_stock :: int
  metadata_reserved :: int
  variants2 :: "Variant2 list"

record DB2 =
  products2 :: "nat \<rightharpoonup> Product2"
  orders2 :: "OrderDoc list"
  refunds2 :: "nat list"

fun incVariantStock :: "string \<Rightarrow> int \<Rightarrow> Variant2 list \<Rightarrow> Variant2 list" where
  "incVariantStock s d [] = []"
| "incVariantStock s d (v # vs) =
     (if v2_sku v = s then v\<lparr>v2_stock := v2_stock v + d\<rparr> # vs
      else v # incVariantStock s d vs)"

text \<open>
  One iteration of \<open>reserveStock\<close> (\<open>d = - quantity\<close>) and of \<open>restockItems\<close>
  (\<open>d = quantity\<close>): with a variant SKU, \<^verbatim>\<open>$inc\<close> of the first matching variant's stock of
  the product that has such a variant; otherwise \<^verbatim>\<open>$inc\<close> of \<^verbatim>\<open>metadata.stock\<close> by \<open>d\<close> and
  of \<^verbatim>\<open>metadata.reserved\<close> by \<open>- d\<close>. An update that matches no document does nothing.
\<close>

definition moveStock :: "int \<Rightarrow> LineItem \<Rightarrow> (nat \<rightharpoonup> Product2) \<Rightarrow> (nat \<rightharpoonup> Product2)" where
  "moveStock d it ps =
     (case ps (li_product it) of
        None \<Rightarrow> ps
      | Some p \<Rightarrow>
          (case truthy_str (li_variant_sku it) of
             Some s \<Rightarrow>
               if list_ex (\<lambda>v. v2_sku v = s) (variants2 p)
               then ps(li_product it \<mapsto> p\<lparr>variants2 := incVariantStock s d (variants2 p)\<rparr>)
               else ps
           | None \<Rightarrow>
               ps(li_product it \<mapsto> p\<lparr>metadata_stock := metadata_stock p + d,
                                      metadata_reserved := metadata_reserved p - d\<rparr>)))"

fun reserveStock :: "LineItem list \<Rightarrow> (nat \<rightharpoonup> Product2) \<Rightarrow> (nat \<rightharpoonup> Product2)" where
  "reserveStock [] ps = ps"
| "reserveStock (it # rest) ps = reserveStock rest (moveStock (- li_quantity it) it ps)"

fun restockItems :: "LineItem list \<Rightarrow> (nat \<rightharpoonup> Product2) \<Rightarrow> (nat \<rightharpoonup> Product2)" where
  "restockItems [] ps = ps"
| "restockItems (it # rest) ps = restockItems rest (moveStock (li_quantity it) it ps)"

text \<open>
  \<open>cancelOrder\<close> of the second class (lines 1442-1484). The payment status is set to
  \<open>cancelled\<close> and saved before it is compared with \<open>completed\<close>; a refund, when the
  comparison holds, is recorded in \<open>refunds2\<close>.
\<close>

definition cancelOrder2 :: "nat \<Rightarrow> nat \<Rightarrow> DB2 \<Rightarrow> error + DB2" where
  "cancelOrder2 uid oid db =
     (if length (orders2 db) \<le> oid \<or> od_user (orders2 db ! oid) \<noteq> uid then Inl NotFound
      else
        (let ord = orders2 db ! oid in
         if od_status ord \<notin> set [''pending'', ''confirmed''] then Inl CannotCancel
         else
           (let ord1 = preSaveTotals (ord\<lparr>od_status := ''cancelled'',
                                           od_payment_status := ''cancelled''\<rparr>);
                ps = restockItems (od_items ord1) (products2 db);
                calls = (if od_payment_status ord1 = ''completed''
                         then refunds2 db @ [oid] else refunds2 db)
            in Inr (db\<lparr>orders2 := (orders2 db)[oid := ord1], products2 := ps,
                       refunds2 := calls\<rparr>))))"

section \<open>\<open>CartController.calculateDiscount\<close>\<close>



section \<open>\<open>ReviewController\<close>: the rating aggregate\<close>

text \<open>
  Line numbers in this section refer to \<^verbatim>\<open>backend/src/controllers/review.controller.js\<close>.
  A rating is an integer (\<^verbatim>\<open>parseInt(rating)\<close> at creation).
\<close>

record Review =
  rv_id :: nat
  rv_product :: nat
  rv_user :: nat
  rating :: int
  rv_status :: string

record Ratings =
  average :: rat
  rcount :: int
  distribution :: "int \<rightharpoonup> int"

text \<open>The review collection and, for every product that exists, its \<open>ratings\<close> block.\<close>

record RDB =
  reviews :: "Review list"
  product_ratings :: "nat \<rightharpoonup> Ratings"

text \<open>
  \<^verbatim>\<open>parseFloat(x.toFixed(d))\<close>: the nearest multiple of \<open>10\<^sup>-\<^sup>d\<close>, a tie going away from
  zero.
\<close>

definition toFixed :: "nat \<Rightarrow> rat \<Rightarrow> rat" where
  "toFixed d x =
     (if x < 0 then - (of_int \<lfloor>(- x) * 10 ^ d + 1 / 2\<rfloor> / 10 ^ d)
      else of_int \<lfloor>x * 10 ^ d + 1 / 2\<rfloor> / 10 ^ d)"

definition approvedReviews :: "nat \<Rightarrow> Review list \<Rightarrow> Review list" where
  "approvedReviews pid rs = filter (\<lambda>r. rv_product r = pid \<and> rv_status r = ''approved'') rs"

text \<open>Lines 1064-1070: the counts start at 0 for 1 to 5 and each review adds one to its rating.\<close>

definition emptyDistribution :: "int \<rightharpoonup> int" where
  "emptyDistribution = [1 \<mapsto> 0, 2 \<mapsto> 0, 3 \<mapsto> 0, 4 \<mapsto> 0, 5 \<mapsto> 0]"

definition countRating :: "(int \<rightharpoonup> int) \<Rightarrow> Review \<Rightarrow> (int \<rightharpoonup> int)" where
  "countRating d r = d(rating r \<mapsto> (case d (rating r) of None \<Rightarrow> 0 | Some n \<Rightarrow> n) + 1)"

definition ratingDistribution :: "Review list \<Rightarrow> (int \<rightharpoonup> int)" where
  "ratingDistribution rs = foldl countRating emptyDistribution rs"

text \<open>
  Lines 1051-1090. Nothing is written when the product has no approved review;
  \<^verbatim>\<open>findByIdAndUpdate\<close> writes nothing when the product does not exist.
\<close>

definition updateProductRating :: "nat \<Rightarrow> RDB \<Rightarrow> RDB" where
  "updateProductRating pid db =
     (let rs = approvedReviews pid (reviews db) in
      if length rs = 0 then db
      else
        (let totalRating = foldl (\<lambda>acc r. acc + rating r) 0 rs;
             averageRating = of_int totalRating / of_int (int (length rs))
         in case product_ratings db pid of
              None \<Rightarrow> db
            | Some _ \<Rightarrow>
                db\<lparr>product_ratings := (product_ratings db)(pid \<mapsto>
                      \<lparr>average = toFixed 1 averageRating,
                       rcount = int (length rs),
                       distribution = ratingDistribution rs\<rparr>)\<rparr>))"

fun deleteFirst :: "('a \<Rightarrow> bool) \<Rightarrow> 'a list \<Rightarrow> 'a list" where
  "deleteFirst P [] = []"
| "deleteFirst P (x # xs) = (if P x then xs else x # deleteFirst P xs)"


text \<open>Lines 310-367: deletion of a review by its author.\<close>

definition deleteReview :: "nat \<Rightarrow> nat \<Rightarrow> RDB \<Rightarrow> error + RDB" where
  "deleteReview uid rid db =
     (case List.find (\<lambda>r. rv_id r = rid \<and> rv_user r = uid) (reviews db) of
        None \<Rightarrow> Inl NotFound
      | Some review \<Rightarrow>
          (let db1 = db\<lparr>reviews := deleteFirst (\<lambda>r. rv_id r = rid) (reviews db)\<rparr>
           in if rv_status review = ''approved''
              then Inr (updateProductRating (rv_product review) db1)
              else Inr db1))"

section \<open>Definitions that follow the specification's words, and example data\<close>

text \<open>
  The transition table as the specification describes it: the forward chain from
  pending to refunded, and cancellation from pending, confirmed or processing.
\<close>

definition specTransitions :: "(string \<times> string) list" where
  "specTransitions =
     [(''pending'', ''confirmed''), (''confirmed'', ''processing''),
      (''processing'', ''ready_for_shipment''), (''ready_for_shipment'', ''shipped''),
      (''shipped'', ''out_for_delivery''), (''out_for_delivery'', ''delivered''),
      (''delivered'', ''refunded''),
      (''pending'', ''cancelled''), (''confirmed'', ''cancelled''),
      (''processing'', ''cancelled'')]"

definition noAmount :: Amount where
  "noAmount = \<lparr>subtotal = 0, shipping = 0, tax = 0, discount = 0, total_amount = 0\<rparr>"

text \<open>An order without line items in a given status, and a database that holds only it.\<close>

definition orderIn :: "string \<Rightarrow> string \<Rightarrow> Order" where
  "orderIn st pst =
     \<lparr>user = 7, items = [], status = st, shipping_cost = 0, shipping_originalCost = 0,
      shipping_discount = 0, payment_method = ''card'', payment_status = pst,
      payment_amount = noAmount, discounts = []\<rparr>"

definition dbWith :: "Order \<Rightarrow> DB" where
  "dbWith ord = \<lparr>users = [7], products = Map.empty, coupons = [], orders = [ord], refunds = []\<rparr>"

text \<open>The statuses of the stored orders after a handler has answered.\<close>

definition statusesAfter :: "error + DB \<Rightarrow> error + string list" where
  "statusesAfter r = map_sum id (\<lambda>db. map status (orders db)) r"







text \<open>
  Product 1 with one approved five-star review (by user 3) and one pending two-star
  review; and the same product once the second review is approved as well.
\<close>

definition review10 :: Review where
  "review10 = \<lparr>rv_id = 10, rv_product = 1, rv_user = 3, rating = 5, rv_status = ''approved''\<rparr>"

definition review11 :: Review where
  "review11 = \<lparr>rv_id = 11, rv_product = 1, rv_user = 4, rating = 2, rv_status = ''pending''\<rparr>"

definition exRDB :: RDB where
  "exRDB =
     \<lparr>reviews = [review10, review11],
      product_ratings =
        [1 \<mapsto> \<lparr>average = 5, rcount = 1, distribution = emptyDistribution(5 \<mapsto> 1)\<rparr>]\<rparr>"


text \<open>
  The counters of the inventory record a call acts on: the base record, or the variant
  with the given SKU.
\<close>

definition reservedOf :: "Product \<Rightarrow> string option \<Rightarrow> int option" where
  "reservedOf p vsku =
     (case truthy_str vsku of
        None \<Rightarrow> Some (reserved (inventory p))
      | Some s \<Rightarrow> map_option (\<lambda>v. reserved (v_inventory v)) (findVariant s (variants p)))"


text \<open>
  The product of the specification's example: quantity 3, nothing reserved, backorders
  allowed or not; a database that holds it as product 1 and has user 7; and a request
  of user 7 for \<open>q\<close> units of it.
\<close>

definition exProduct :: "bool \<Rightarrow> Product" where
  "exProduct b =
     \<lparr>price_base = 45, price_sale = None, tax_rate = None,
      inventory = \<lparr>quantity = 3, reserved = 0, sold = 0, allowBackorders = b\<rparr>,
      variants = []\<rparr>"

definition exDB :: "bool \<Rightarrow> Coupon list \<Rightarrow> DB" where
  "exDB b cs =
     \<lparr>users = [7], products = [1 \<mapsto> exProduct b], coupons = cs, orders = [], refunds = []\<rparr>"


text \<open>
  The invariant of the specification, \<open>0 \<le> reserved \<le> quantity\<close>, for one inventory
  record and for a product: its base record and each of its variants.
\<close>

definition stockInvariant :: "Inventory \<Rightarrow> bool" where
  "stockInvariant iv = (0 \<le> reserved iv \<and> reserved iv \<le> quantity iv)"

definition productInvariant :: "Product \<Rightarrow> bool" where
  "productInvariant p =
     (stockInvariant (inventory p) \<and>
      list_all (\<lambda>v. stockInvariant (v_inventory v)) (variants p))"

text \<open>
  A call is within the reservation when its quantity is not negative and, for a sell
  or a release, not more than what is reserved on the record it acts on; a sequence
  is, when each call is, on the product as the calls before it have left it.
\<close>

definition targetReserved :: "Product \<Rightarrow> string option \<Rightarrow> int" where
  "targetReserved p vsku = (case reservedOf p vsku of None \<Rightarrow> 0 | Some r \<Rightarrow> r)"

fun callOK :: "Product \<Rightarrow> stock_call \<Rightarrow> bool" where
  "callOK p (ReserveCall vsku q) = (0 \<le> q)"
| "callOK p (SellCall vsku q) = (0 \<le> q \<and> q \<le> targetReserved p vsku)"
| "callOK p (ReleaseCall vsku q) = (0 \<le> q \<and> q \<le> targetReserved p vsku)"

fun callsOK :: "Product \<Rightarrow> stock_call list \<Rightarrow> bool" where
  "callsOK p [] = True"
| "callsOK p (c # cs) =
     (callOK p c \<and> (case applyCall p c of Inl e \<Rightarrow> True | Inr p' \<Rightarrow> callsOK p' cs))"

text \<open>Whether the invariant holds after a sequence of calls that all succeeded.\<close>

definition invariantAfter :: "error + Product \<Rightarrow> error + bool" where
  "invariantAfter r = map_sum id productInvariant r"

text \<open>
  After a cancellation has answered: the payment status of every stored order, and the
  refund calls made.
\<close>

definition paymentAfter :: "error + DB \<Rightarrow> error + string list \<times> RefundCall list" where
  "paymentAfter r = map_sum id (\<lambda>db. (map payment_status (orders db), refunds db)) r"

definition paymentAfter2 :: "error + DB2 \<Rightarrow> error + string list \<times> nat list" where
  "paymentAfter2 r = map_sum id (\<lambda>db. (map od_payment_status (orders2 db), refunds2 db)) r"

text \<open>
  For the second controller class: user 7's pending order of 2 units of product 1, paid
  (payment status \<open>completed\<close>).
\<close>

definition exTotals :: Totals where
  "exTotals = \<lparr>t_items = 90, t_shipping = 5, t_tax = 0, t_discount = 0, grandTotal = 95\<rparr>"

definition exOrderDoc :: OrderDoc where
  "exOrderDoc =
     \<lparr>od_user = 7,
      od_items = [\<lparr>li_product = 1, li_variant_sku = None, li_quantity = 2, li_price = 45,
                   li_subtotal = 90, li_tax = None, li_discount_amount = None\<rparr>],
      od_shipping_cost = 5, od_status = ''pending'', od_payment_status = ''completed'',
      od_payment_amount = exTotals, totals = exTotals\<rparr>"

definition exDB2 :: DB2 where
  "exDB2 =
     \<lparr>products2 = [1 \<mapsto> \<lparr>metadata_stock = 1, metadata_reserved = 2, variants2 = []\<rparr>],
      orders2 = [exOrderDoc], refunds2 = []\<rparr>"















text \<open>
  A request of user 7 with two lines of 2 units of product 1 each, and the quantity and
  the reserved counter of a product after \<open>createOrder\<close> has answered.
\<close>

definition twoLines :: OrderRequest where
  "twoLines =
     \<lparr>req_items = [\<lparr>productId = 1, req_variantSku = None, req_quantity = 2\<rparr>,
                   \<lparr>productId = 1, req_variantSku = None, req_quantity = 2\<rparr>],
      shippingAddress = Some ''1 Main Street'', shippingMethod = Some ''standard'',
      paymentMethod = Some ''card'', couponCode = None\<rparr>"

definition stockAfter :: "error + DB \<times> nat \<Rightarrow> nat \<Rightarrow> error + (int \<times> int) option" where
  "stockAfter r pid =
     map_sum id (\<lambda>(db, oid). map_option (\<lambda>p. (quantity (inventory p), reserved (inventory p)))
                                (products db pid)) r"


section \<open>The order status machine\<close>

lemma transitionAllowed_iff:
  "transitionAllowed from to \<longleftrightarrow>
     (from, to) \<in> set specTransitions \<or> (from, to) = (''shipped'', ''delivered'')"
  unfolding transitionAllowed_def validTransitions_def specTransitions_def
  by (auto split: if_splits)

lemma updateOrderStatus_rejects:
  assumes "userRole = ''admin'' \<or> userRole = ''superadmin''"
    and "oid < length (orders db)"
    and "\<not> transitionAllowed (status (orders db ! oid)) to"
  shows "updateOrderStatus userRole oid to db = Inl InvalidTransition"
  using assms by (auto simp: updateOrderStatus_def Let_def)

lemma updateOrderStatus_accepts:
  assumes "userRole = ''admin'' \<or> userRole = ''superadmin''"
    and "oid < length (orders db)"
    and "transitionAllowed (status (orders db ! oid)) to"
  shows "\<exists>db'. updateOrderStatus userRole oid to db = Inr db' \<and>
               length (orders db') = length (orders db) \<and> status (orders db' ! oid) = to"
  using assms
  by (auto simp: updateOrderStatus_def Let_def refundIfCaptured_def split: prod.splits if_splits)

text \<open>
  C8, as stated, fails: the table of \<open>updateOrderStatus\<close> has one more entry than the
  chain of the claim. An administrator's request to move a shipped order straight to
  delivered is outside the claim's table and is accepted.
\<close>

theorem C8_shipped_to_delivered_accepted:
  "(''shipped'', ''delivered'') \<notin> set specTransitions \<and>
   statusesAfter (updateOrderStatus ''admin'' 0 ''delivered''
                    (dbWith (orderIn ''shipped'' ''captured''))) = Inr [''delivered'']"
  by (simp add: specTransitions_def statusesAfter_def updateOrderStatus_def dbWith_def
      orderIn_def transitionAllowed_def validTransitions_def itemTargets_def Let_def)

text \<open>
  C8, amended: a status change requested by an administrator for an existing order is
  allowed exactly when it is in the claim's table or is the step from shipped to
  delivered. An allowed request sets the order's status to the requested one; any other
  request is answered with \<open>InvalidTransition\<close>, and the handler returns before it writes
  anything, so the stored status stays as it was. In particular cancelled is reachable
  only from pending, confirmed and processing.
\<close>

theorem C8_transition_table:
  "(transitionAllowed from to \<longleftrightarrow>
      (from, to) \<in> set specTransitions \<or> (from, to) = (''shipped'', ''delivered'')) \<and>
   (transitionAllowed from ''cancelled'' \<longrightarrow>
      from \<in> {''pending'', ''confirmed'', ''processing''}) \<and>
   ((userRole = ''admin'' \<or> userRole = ''superadmin'') \<and> oid < length (orders db) \<longrightarrow>
      (if transitionAllowed (status (orders db ! oid)) new
       then \<exists>db'. updateOrderStatus userRole oid new db = Inr db' \<and>
                  length (orders db') = length (orders db) \<and>
                  status (orders db' ! oid) = new
       else updateOrderStatus userRole oid new db = Inl InvalidTransition))"
proof (intro conjI impI)
  show "transitionAllowed from to \<longleftrightarrow>
      (from, to) \<in> set specTransitions \<or> (from, to) = (''shipped'', ''delivered'')"
    by (rule transitionAllowed_iff)
next
  assume "transitionAllowed from ''cancelled''"
  then show "from \<in> {''pending'', ''confirmed'', ''processing''}"
    by (auto simp: transitionAllowed_iff specTransitions_def)
next
  assume a: "(userRole = ''admin'' \<or> userRole = ''superadmin'') \<and> oid < length (orders db)"
  show "if transitionAllowed (status (orders db ! oid)) new
       then \<exists>db'. updateOrderStatus userRole oid new db = Inr db' \<and>
                  length (orders db') = length (orders db) \<and>
                  status (orders db' ! oid) = new
       else updateOrderStatus userRole oid new db = Inl InvalidTransition"
    using a updateOrderStatus_rejects [of userRole oid db new]
      updateOrderStatus_accepts [of userRole oid db new]
    by (simp split: if_splits)
qed

text \<open>
  The example of the specification: a shipped order cannot go back to processing.
\<close>

theorem C8_transition_table_witness:
  "\<not> transitionAllowed ''shipped'' ''processing'' \<and>
   updateOrderStatus ''admin'' 0 ''processing'' (dbWith (orderIn ''shipped'' ''captured''))
     = Inl InvalidTransition"
proof -
  have n: "\<not> transitionAllowed ''shipped'' ''processing''"
    by (simp add: transitionAllowed_def validTransitions_def)
  have l: "0 < length (orders (dbWith (orderIn ''shipped'' ''captured'')))"
    by (simp add: dbWith_def)
  have s: "status (orders (dbWith (orderIn ''shipped'' ''captured'')) ! 0) = ''shipped''"
    by (simp add: dbWith_def orderIn_def)
  show ?thesis
    using C8_transition_table [of "''shipped''" "''processing''" "''admin''" 0
        "dbWith (orderIn ''shipped'' ''captured'')" "''processing''"] n l s
    by simp
qed

section \<open>The rating aggregate\<close>







lemma updateProductRating_reviews [simp]:
  "reviews (updateProductRating pid db) = reviews db"
  by (simp add: updateProductRating_def Let_def split: option.splits)

lemma updateProductRating_empty:
  "approvedReviews pid (reviews db) = [] \<Longrightarrow> updateProductRating pid db = db"
  by (simp add: updateProductRating_def)





lemma deleteReview_last:
  assumes f: "List.find (\<lambda>r. rv_id r = rid \<and> rv_user r = uid) (reviews db) = Some review"
    and e: "approvedReviews (rv_product review)
              (deleteFirst (\<lambda>r. rv_id r = rid) (reviews db)) = []"
  shows "\<exists>db'. deleteReview uid rid db = Inr db' \<and> product_ratings db' = product_ratings db"
proof -
  define db1 where "db1 = db\<lparr>reviews := deleteFirst (\<lambda>r. rv_id r = rid) (reviews db)\<rparr>"
  have "updateProductRating (rv_product review) db1 = db1"
    using e by (simp add: updateProductRating_empty db1_def)
  then show ?thesis
    using f by (auto simp: deleteReview_def Let_def db1_def)
qed




text \<open>
  C10: with no approved review of the product, \<open>updateProductRating\<close> returns the
  database as it was. So when the author deletes a review and the product has no
  approved review left, the stored average, count and distribution keep their previous
  values.
\<close>

theorem C10_no_approved_reviews_no_write:
  "(approvedReviews pid (reviews db) = [] \<longrightarrow> updateProductRating pid db = db) \<and>
   (List.find (\<lambda>r. rv_id r = rid \<and> rv_user r = uid) (reviews db') = Some review \<and>
    approvedReviews (rv_product review) (deleteFirst (\<lambda>r. rv_id r = rid) (reviews db')) = []
    \<longrightarrow> (\<exists>db''. deleteReview uid rid db' = Inr db'' \<and>
               product_ratings db'' = product_ratings db'))"
  using updateProductRating_empty [of pid db] deleteReview_last [of rid uid db' review]
  by blast

theorem C10_no_approved_reviews_no_write_witness:
  "updateProductRating 2 exRDB = exRDB \<and>
   (\<exists>db''. deleteReview 3 10 exRDB = Inr db'' \<and> product_ratings db'' = product_ratings exRDB)"
proof -
  have 1: "approvedReviews 2 (reviews exRDB) = []"
    by (simp add: approvedReviews_def exRDB_def review10_def review11_def)
  have 2: "List.find (\<lambda>r. rv_id r = 10 \<and> rv_user r = 3) (reviews exRDB) = Some review10"
    by (simp add: exRDB_def review10_def)
  have 3: "approvedReviews (rv_product review10)
             (deleteFirst (\<lambda>r. rv_id r = 10) (reviews exRDB)) = []"
    by (simp add: approvedReviews_def exRDB_def review10_def review11_def)
  show ?thesis
    using C10_no_approved_reviews_no_write [of 2 exRDB 10 3 exRDB review10] 1 2 3
    by simp
qed

section \<open>Inventory reservation\<close>








lemma adjustVariant_invariant:
  assumes "list_all (\<lambda>v. stockInvariant (v_inventory v)) vs"
    and "\<And>v. findVariant s vs = Some v \<Longrightarrow>
           stockInvariant (adjustInventory q action (v_inventory v))"
  shows "list_all (\<lambda>v. stockInvariant (v_inventory v)) (adjustVariant q s action vs)"
  using assms by (induction vs) (auto simp: findVariant_def)

lemma findVariant_invariant:
  "list_all (\<lambda>v. stockInvariant (v_inventory v)) vs \<Longrightarrow> findVariant s vs = Some v \<Longrightarrow>
   stockInvariant (v_inventory v)"
  by (induction vs) (auto simp: findVariant_def split: if_splits)

lemma allowBackorders_updateInventory [simp]:
  "allowBackorders (inventory (updateInventory q vsku action p)) = allowBackorders (inventory p)"
  by (cases action) (auto simp: updateInventory_def adjustInventory_def split: option.splits)

lemma applyCall_backorders:
  "applyCall p c = Inr p' \<Longrightarrow> allowBackorders (inventory p') = allowBackorders (inventory p)"
  by (cases c) (auto simp: reserve_def sell_def release_def split: sum.splits)

lemma applyCall_invariant:
  assumes inv: "productInvariant p" and nb: "\<not> allowBackorders (inventory p)"
    and ok: "callOK p c" and r: "applyCall p c = Inr p'"
  shows "productInvariant p'"
proof (cases c)
  case (ReserveCall vsku q)
  show ?thesis
  proof (cases "truthy_str vsku")
    case None
    then show ?thesis
      using inv nb ok r ReserveCall
      by (auto simp: reserve_def lookupVariant_def checkAvailability_def availableStock_def
          updateInventory_def adjustInventory_def productInvariant_def stockInvariant_def
          split: if_splits)
  next
    case (Some s)
    then obtain v where v: "findVariant s (variants p) = Some v"
      and av: "q \<le> quantity (v_inventory v) - reserved (v_inventory v)"
      and p': "p' = updateInventory q vsku Reserve p"
      using nb r ReserveCall
      by (auto simp: reserve_def lookupVariant_def checkAvailability_def availableStock_def
          split: if_splits option.splits)
    have "stockInvariant (v_inventory v)"
      using inv v by (auto simp: productInvariant_def intro: findVariant_invariant)
    then have "stockInvariant (adjustInventory q Reserve (v_inventory v))"
      using av ok ReserveCall by (simp add: stockInvariant_def adjustInventory_def)
    then have "list_all (\<lambda>v. stockInvariant (v_inventory v))
                 (adjustVariant q s Reserve (variants p))"
      using inv v by (intro adjustVariant_invariant) (auto simp: productInvariant_def)
    then show ?thesis
      using inv Some by (simp add: p' updateInventory_def productInvariant_def)
  qed
next
  case (SellCall vsku q)
  show ?thesis
  proof (cases "truthy_str vsku")
    case None
    then show ?thesis
      using inv ok r SellCall
      by (auto simp: sell_def updateInventory_def adjustInventory_def productInvariant_def
          stockInvariant_def targetReserved_def reservedOf_def)
  next
    case (Some s)
    have "stockInvariant (adjustInventory q Sell (v_inventory v))"
      if "findVariant s (variants p) = Some v" for v
    proof -
      have "stockInvariant (v_inventory v)"
        using inv that by (auto simp: productInvariant_def intro: findVariant_invariant)
      then show ?thesis
        using ok SellCall Some that
        by (simp add: stockInvariant_def adjustInventory_def targetReserved_def reservedOf_def)
    qed
    then have "list_all (\<lambda>v. stockInvariant (v_inventory v))
                 (adjustVariant q s Sell (variants p))"
      using inv by (intro adjustVariant_invariant) (auto simp: productInvariant_def)
    then show ?thesis
      using inv Some r SellCall
      by (auto simp: sell_def updateInventory_def productInvariant_def)
  qed
next
  case (ReleaseCall vsku q)
  show ?thesis
  proof (cases "truthy_str vsku")
    case None
    then show ?thesis
      using inv ok r ReleaseCall
      by (auto simp: release_def updateInventory_def adjustInventory_def productInvariant_def
          stockInvariant_def targetReserved_def reservedOf_def)
  next
    case (Some s)
    have "stockInvariant (adjustInventory q Release (v_inventory v))"
      if "findVariant s (variants p) = Some v" for v
    proof -
      have "stockInvariant (v_inventory v)"
        using inv that by (auto simp: productInvariant_def intro: findVariant_invariant)
      then show ?thesis
        using ok ReleaseCall Some that
        by (simp add: stockInvariant_def adjustInventory_def targetReserved_def reservedOf_def)
    qed
    then have "list_all (\<lambda>v. stockInvariant (v_inventory v))
                 (adjustVariant q s Release (variants p))"
      using inv by (intro adjustVariant_invariant) (auto simp: productInvariant_def)
    then show ?thesis
      using inv Some r ReleaseCall
      by (auto simp: release_def updateInventory_def productInvariant_def)
  qed
qed

lemma applyCalls_invariant:
  "productInvariant p \<Longrightarrow> \<not> allowBackorders (inventory p) \<Longrightarrow> callsOK p cs \<Longrightarrow>
   applyCalls p cs = Inr p' \<Longrightarrow> productInvariant p'"
proof (induction cs arbitrary: p)
  case Nil
  then show ?case by simp
next
  case (Cons c cs)
  from Cons.prems(4) obtain p1 where s: "applyCall p c = Inr p1" and r: "applyCalls p1 cs = Inr p'"
    by (auto split: sum.splits)
  have "productInvariant p1"
    using applyCall_invariant [OF Cons.prems(1,2) _ s] Cons.prems(3) by simp
  moreover have "\<not> allowBackorders (inventory p1)"
    using applyCall_backorders [OF s] Cons.prems(2) by simp
  moreover have "callsOK p1 cs" using Cons.prems(3) s by simp
  ultimately show ?case using Cons.IH r by blast
qed

text \<open>
  The availability checks of one request all read the stock as it was before the
  request: two lines of 2 units of a product with quantity 3 and no backorders both
  pass, and the product ends with 4 reserved. (Calls of \<open>reserve\<close> made one after the
  other, as for orders of one line, see the reservations made before them.)
\<close>

lemma createOrder_two_lines:
  "stockAfter (createOrder 0 0 7 twoLines (exDB False [])) 1 = Inr (Some (3, 4))"
  by (simp add: stockAfter_def createOrder_def twoLines_def exDB_def exProduct_def
      processItem_def lookupVariant_def checkAvailability_def availableStock_def
      basePriceOf_def finalPriceOf_def applyCouponStep_def placeOrder_def updateTargets_def
      inventoryStep_def updateInventory_def adjustInventory_def Let_def)

text \<open>
  In the second controller class \<open>reserveStock\<close> moves the quantity from
  \<^verbatim>\<open>metadata.stock\<close> to \<^verbatim>\<open>metadata.reserved\<close> and \<open>restockItems\<close> moves it back: their sum
  stays, and \<open>restockItems\<close> undoes \<open>reserveStock\<close> of the same items.
\<close>

lemma incVariantStock_undo: "incVariantStock s d (incVariantStock s (- d) vs) = vs"
  by (induction vs) auto

lemma incVariantStock_ex:
  "list_ex (\<lambda>v. v2_sku v = s) (incVariantStock s' d vs) = list_ex (\<lambda>v. v2_sku v = s) vs"
  by (induction vs) auto

lemma moveStock_undo: "moveStock d it (moveStock (- d) it ps) = ps"
  by (auto simp: moveStock_def incVariantStock_undo incVariantStock_ex map_upd_triv
      split: option.splits)

lemma moveStock_conserves:
  "ps (li_product it) = Some p \<Longrightarrow> truthy_str (li_variant_sku it) = None \<Longrightarrow>
   \<exists>p'. moveStock d it ps (li_product it) = Some p' \<and>
        metadata_stock p' + metadata_reserved p' = metadata_stock p + metadata_reserved p"
  by (simp add: moveStock_def)

lemma incVariantStock_commute:
  "incVariantStock s d (incVariantStock s' d' vs) = incVariantStock s' d' (incVariantStock s d vs)"
  by (induction vs) auto

lemma moveStock_commute:
  "moveStock d it (moveStock d' it' ps) = moveStock d' it' (moveStock d it ps)"
proof (cases "li_product it = li_product it'")
  case True
  then show ?thesis
    by (auto simp: moveStock_def incVariantStock_commute incVariantStock_ex
        split: option.splits)
next
  case False
  then show ?thesis
    by (auto simp: moveStock_def fun_upd_twist split: option.splits)
qed

lemma reserveStock_moveStock:
  "reserveStock its (moveStock d it ps) = moveStock d it (reserveStock its ps)"
proof (induction its arbitrary: ps)
  case Nil
  show ?case by simp
next
  case (Cons a its)
  have "reserveStock (a # its) (moveStock d it ps)
          = reserveStock its (moveStock d it (moveStock (- li_quantity a) a ps))"
    by (simp add: moveStock_commute [of "- li_quantity a" a d it])
  also have "\<dots> = moveStock d it (reserveStock its (moveStock (- li_quantity a) a ps))"
    by (rule Cons.IH)
  finally show ?case by simp
qed

lemma restockItems_reserveStock: "restockItems its (reserveStock its ps) = ps"
proof (induction its arbitrary: ps)
  case Nil
  show ?case by simp
next
  case (Cons a its)
  have "restockItems (a # its) (reserveStock (a # its) ps)
          = restockItems its (moveStock (li_quantity a) a
              (reserveStock its (moveStock (- li_quantity a) a ps)))"
    by simp
  also have "\<dots> = restockItems its (reserveStock its
              (moveStock (li_quantity a) a (moveStock (- li_quantity a) a ps)))"
    by (simp add: reserveStock_moveStock)
  also have "\<dots> = restockItems its (reserveStock its ps)"
    by (simp add: moveStock_undo)
  also have "\<dots> = ps" by (rule Cons.IH)
  finally show ?case .
qed

text \<open>
  C3, as stated, fails. With backorders allowed, reserving 5 units of a product with
  quantity 3 succeeds and leaves \<open>reserved = 5 > quantity\<close>; and a release, which has no
  check, of one unit of a product with nothing reserved succeeds and leaves
  \<open>reserved = -1\<close>.
\<close>

theorem C3_invariant_broken:
  "productInvariant (exProduct True) \<and>
   invariantAfter (applyCalls (exProduct True) [ReserveCall None 5]) = Inr False \<and>
   productInvariant (exProduct False) \<and>
   invariantAfter (applyCalls (exProduct False) [ReleaseCall None 1]) = Inr False"
  by (simp add: invariantAfter_def productInvariant_def stockInvariant_def exProduct_def
      reserve_def release_def lookupVariant_def checkAvailability_def availableStock_def
      updateInventory_def adjustInventory_def)

text \<open>
  C3, amended: for a product that does not allow backorders, if \<open>0 \<le> reserved \<le>
  quantity\<close> holds for the base record and for each variant, it holds again after any
  sequence of reserve, sell and release calls that individually succeeded (each
  reserve being checked against the stock as the calls before it left it), provided
  every quantity is non-negative and every sell or release takes at most what is
  reserved on the record it acts on.
\<close>

theorem C3_invariant_preserved:
  assumes "productInvariant p" and "\<not> allowBackorders (inventory p)"
    and "callsOK p cs" and "applyCalls p cs = Inr p'"
  shows "productInvariant p'"
  using assms by (rule applyCalls_invariant)

theorem C3_invariant_preserved_witness:
  "applyCalls (exProduct False) [ReserveCall None 2, SellCall None 1, ReleaseCall None 1]
     = Inr ((exProduct False)\<lparr>inventory :=
              \<lparr>quantity = 2, reserved = 0, sold = 1, allowBackorders = False\<rparr>\<rparr>) \<and>
   productInvariant ((exProduct False)\<lparr>inventory :=
              \<lparr>quantity = 2, reserved = 0, sold = 1, allowBackorders = False\<rparr>\<rparr>)"
proof -
  let ?cs = "[ReserveCall None 2, SellCall None 1, ReleaseCall None 1]"
  let ?p' = "(exProduct False)\<lparr>inventory :=
              \<lparr>quantity = 2, reserved = 0, sold = 1, allowBackorders = False\<rparr>\<rparr>"
  have 1: "productInvariant (exProduct False)"
    by (simp add: productInvariant_def stockInvariant_def exProduct_def)
  have 2: "\<not> allowBackorders (inventory (exProduct False))"
    by (simp add: exProduct_def)
  have 3: "callsOK (exProduct False) ?cs"
    by (simp add: exProduct_def reserve_def sell_def release_def lookupVariant_def
        checkAvailability_def availableStock_def updateInventory_def adjustInventory_def
        targetReserved_def reservedOf_def)
  have 4: "applyCalls (exProduct False) ?cs = Inr ?p'"
    by (simp add: exProduct_def reserve_def sell_def release_def lookupVariant_def
        checkAvailability_def availableStock_def updateInventory_def adjustInventory_def)
  from C3_invariant_preserved [OF 1 2 3 4] 4 show ?thesis by simp
qed

section \<open>Cancellation restores the reservation\<close>

lemma adjustInventory_commute:
  "adjustInventory q a (adjustInventory q' b iv) = adjustInventory q' b (adjustInventory q a iv)"
  by (cases a; cases b) (simp_all add: adjustInventory_def)

lemma adjustInventory_release_reserve:
  "adjustInventory q Release (adjustInventory q Reserve iv) = iv"
  by (simp add: adjustInventory_def)

lemma adjustVariant_commute:
  "adjustVariant q s a (adjustVariant q' s' b vs) = adjustVariant q' s' b (adjustVariant q s a vs)"
  by (induction vs) (auto simp: adjustInventory_commute)

lemma adjustVariant_release_reserve:
  "adjustVariant q s Release (adjustVariant q s Reserve vs) = vs"
  by (induction vs) (auto simp: adjustInventory_release_reserve)

lemma updateInventory_commute:
  "updateInventory q vsku a (updateInventory q' vsku' b p)
     = updateInventory q' vsku' b (updateInventory q vsku a p)"
  by (auto simp: updateInventory_def adjustInventory_commute adjustVariant_commute
      split: option.splits)

lemma updateInventory_release_reserve:
  "updateInventory q vsku Release (updateInventory q vsku Reserve p) = p"
  by (auto simp: updateInventory_def adjustInventory_release_reserve
      adjustVariant_release_reserve split: option.splits)

lemma inventoryStep_commute:
  "inventoryStep a t (inventoryStep b u ps) = inventoryStep b u (inventoryStep a t ps)"
proof -
  obtain pid vsku q where t: "t = (pid, vsku, q)" by (cases t)
  obtain pid' vsku' q' where u: "u = (pid', vsku', q')" by (cases u)
  show ?thesis
  proof (cases "pid = pid'")
    case True
    then show ?thesis
      by (auto simp: t u inventoryStep_def updateInventory_commute split: option.splits)
  next
    case False
    then show ?thesis
      by (auto simp: t u inventoryStep_def fun_upd_twist split: option.splits)
  qed
qed

lemma inventoryStep_release_reserve:
  "inventoryStep Release t (inventoryStep Reserve t ps) = ps"
  by (cases t) (auto simp: inventoryStep_def updateInventory_release_reserve map_upd_triv
      split: option.splits)

lemma inventoryLoop_step_commute:
  "inventoryLoop a ts (inventoryStep b u ps) = inventoryStep b u (inventoryLoop a ts ps)"
proof (induction ts arbitrary: ps)
  case Nil
  show ?case by simp
next
  case (Cons t ts)
  have "inventoryLoop a (t # ts) (inventoryStep b u ps)
          = inventoryLoop a ts (inventoryStep b u (inventoryStep a t ps))"
    by (simp add: inventoryStep_commute [of a t b u])
  also have "\<dots> = inventoryStep b u (inventoryLoop a ts (inventoryStep a t ps))"
    by (rule Cons.IH)
  finally show ?case by simp
qed

lemma inventoryLoop_release_reserve:
  "inventoryLoop Release ts (inventoryLoop Reserve ts ps) = ps"
proof (induction ts arbitrary: ps)
  case Nil
  show ?case by simp
next
  case (Cons t ts)
  have "inventoryLoop Release (t # ts) (inventoryLoop Reserve (t # ts) ps)
          = inventoryLoop Release ts
              (inventoryStep Release t (inventoryLoop Reserve ts (inventoryStep Reserve t ps)))"
    by simp
  also have "\<dots> = inventoryLoop Release ts
              (inventoryLoop Reserve ts (inventoryStep Release t (inventoryStep Reserve t ps)))"
    by (simp add: inventoryLoop_step_commute)
  also have "\<dots> = inventoryLoop Release ts (inventoryLoop Reserve ts ps)"
    by (simp add: inventoryStep_release_reserve)
  also have "\<dots> = ps" by (rule Cons.IH)
  finally show ?case .
qed

text \<open>
  The loops commute, so the release of an order's items undoes its reservation also
  when other orders have reserved, released or sold in between.
\<close>

lemma inventoryLoop_commute:
  "inventoryLoop a ts (inventoryLoop b us ps) = inventoryLoop b us (inventoryLoop a ts ps)"
  by (induction us arbitrary: ps) (simp_all add: inventoryLoop_step_commute)

lemma inventoryLoop_release_reserve_interleaved:
  "inventoryLoop Release ts (inventoryLoop a us (inventoryLoop Reserve ts ps))
     = inventoryLoop a us ps"
  by (simp add: inventoryLoop_commute [of Release ts a us] inventoryLoop_release_reserve)







section \<open>Cancellation and refund\<close>

text \<open>
  The customer's \<open>cancelOrder\<close> of the first class does what C5 says: it is permitted
  only in the three statuses, releases every line item, and refunds a captured payment.
\<close>

lemma cancelOrder_permitted:
  "cancelOrder uid oid db = Inr db' \<Longrightarrow>
   status (orders db ! oid) \<in> {''pending'', ''confirmed'', ''processing''}"
  by (auto simp: cancelOrder_def canCancel_def Let_def split: if_splits prod.splits)

lemma cancelOrder_effect:
  assumes "cancelOrder uid oid db = Inr db'"
  shows "products db' = inventoryLoop Release (itemTargets (items (orders db ! oid))) (products db)"
    and "status (orders db' ! oid) = ''cancelled''"
    and "payment_status (orders db ! oid) = ''captured'' \<Longrightarrow>
         payment_status (orders db' ! oid) = ''refunded'' \<and>
         refunds db' = refunds db @
           [\<lparr>rf_order = oid, rf_amount = total_amount (payment_amount (orders db ! oid)),
             rf_reason = ''customer_cancelled''\<rparr>]"
    and "payment_status (orders db ! oid) \<noteq> ''captured'' \<Longrightarrow>
         payment_status (orders db' ! oid) = payment_status (orders db ! oid) \<and>
         refunds db' = refunds db"
  using assms
  by (auto simp: cancelOrder_def Let_def refundIfCaptured_def split: if_splits)

text \<open>So does the administrator's status change to cancelled.\<close>

lemma updateOrderStatus_cancelled_effect:
  assumes "updateOrderStatus userRole oid ''cancelled'' db = Inr db'"
  shows "status (orders db ! oid) \<in> {''pending'', ''confirmed'', ''processing''}"
    and "products db'
           = inventoryLoop Release (itemTargets (items (orders db ! oid))) (products db)"
    and "payment_status (orders db ! oid) = ''captured'' \<Longrightarrow>
         payment_status (orders db' ! oid) = ''refunded'' \<and>
         refunds db' = refunds db @
           [\<lparr>rf_order = oid, rf_amount = total_amount (payment_amount (orders db ! oid)),
             rf_reason = ''order_cancelled''\<rparr>]"
    and "payment_status (orders db ! oid) \<noteq> ''captured'' \<Longrightarrow>
         payment_status (orders db' ! oid) = payment_status (orders db ! oid) \<and>
         refunds db' = refunds db"
proof -
  have t: "transitionAllowed (status (orders db ! oid)) ''cancelled''"
    and l: "oid < length (orders db)"
    using assms by (auto simp: updateOrderStatus_def Let_def split: if_splits)
  from t show "status (orders db ! oid) \<in> {''pending'', ''confirmed'', ''processing''}"
    by (auto simp: transitionAllowed_iff specTransitions_def)
  show "products db'
           = inventoryLoop Release (itemTargets (items (orders db ! oid))) (products db)"
    using assms t l
    by (auto simp: updateOrderStatus_def Let_def refundIfCaptured_def split: if_splits)
  show "payment_status (orders db ! oid) = ''captured'' \<Longrightarrow>
         payment_status (orders db' ! oid) = ''refunded'' \<and>
         refunds db' = refunds db @
           [\<lparr>rf_order = oid, rf_amount = total_amount (payment_amount (orders db ! oid)),
             rf_reason = ''order_cancelled''\<rparr>]"
    using assms t l
    by (auto simp: updateOrderStatus_def Let_def refundIfCaptured_def split: if_splits)
  show "payment_status (orders db ! oid) \<noteq> ''captured'' \<Longrightarrow>
         payment_status (orders db' ! oid) = payment_status (orders db ! oid) \<and>
         refunds db' = refunds db"
    using assms t l
    by (auto simp: updateOrderStatus_def Let_def refundIfCaptured_def split: if_splits)
qed

text \<open>The \<open>cancelOrder\<close> of the second class never refunds.\<close>

lemma cancelOrder2_never_refunds:
  "cancelOrder2 uid oid db = Inr db' \<Longrightarrow>
   refunds2 db' = refunds2 db \<and> od_payment_status (orders2 db' ! oid) = ''cancelled''"
  by (auto simp: cancelOrder2_def Let_def preSaveTotals_def split: if_splits)

lemma cancelOrder2_processing_rejected:
  "oid < length (orders2 db) \<Longrightarrow> od_user (orders2 db ! oid) = uid \<Longrightarrow>
   od_status (orders2 db ! oid) = ''processing'' \<Longrightarrow> cancelOrder2 uid oid db = Inl CannotCancel"
  by (simp add: cancelOrder2_def Let_def)

text \<open>
  C5: cancellation is permitted only while the order is pending, confirmed or
  processing, releases every item and, when the payment was already captured, invokes
  the refund and marks the payment refunded. The \<open>cancelOrder\<close> of the second class
  does not: a pending order whose payment has been taken is cancelled by its customer,
  the payment status is overwritten with \<open>cancelled\<close> before it is compared with
  \<open>completed\<close>, and the order ends with payment status \<open>cancelled\<close> and no refund made.
  The first class, on the same kind of order (payment status \<open>captured\<close>), makes the
  refund and marks the payment \<open>refunded\<close>.
\<close>

theorem C5_second_cancelOrder_skips_refund:
  "paymentAfter2 (cancelOrder2 7 0 exDB2) = Inr ([''cancelled''], []) \<and>
   paymentAfter (cancelOrder 7 0 (dbWith (orderIn ''pending'' ''captured'')))
     = Inr ([''refunded''],
            [\<lparr>rf_order = 0, rf_amount = 0, rf_reason = ''customer_cancelled''\<rparr>])"
  by (simp add: paymentAfter2_def paymentAfter_def cancelOrder2_def cancelOrder_def exDB2_def
      exOrderDoc_def preSaveTotals_def dbWith_def orderIn_def canCancel_def
      refundIfCaptured_def noAmount_def itemTargets_def Let_def)

section \<open>Coupon validation\<close>











section \<open>The coupon discount\<close>










section \<open>The stored totals\<close>













end
